theory Spec2Isabelle
  imports Main
begin

section \<open>Python values and exceptions\<close>

text \<open>
  The recognition service answers with a parsed JSON document, which the scripts handle as
  plain Python objects: \<open>None\<close>, booleans, integers, strings, lists and dictionaries with
  string keys. A dictionary is an association list read with \<open>map_of\<close>, in insertion
  order. JSON floating-point numbers are not represented; no function below computes
  with a number of the payload. Console output (\<open>print\<close>) is not modelled.
\<close>

datatype json =
    JNone
  | JBool bool
  | JInt int
  | JStr string
  | JList "json list"
  | JDict "(string \<times> json) list"

text \<open>The exceptions the modelled code can raise or receive, by class.\<close>

datatype error =
    AttributeError
  | KeyError
  | TypeError
  | IndexError
  | ZeroDivisionError
  | OverflowError
  | CalledProcessError string
  | RequestException string
  | ConnectionError string
  | HTTPError string
  | OtherException string
  | Exception string
  | KeyboardInterrupt
  | CancelledError

text \<open>
  \<open>except Exception\<close> catches every class above but the last two, which derive from
  \<open>BaseException\<close> only.
\<close>

fun is_Exception :: "error \<Rightarrow> bool" where
  "is_Exception KeyboardInterrupt = False"
| "is_Exception CancelledError = False"
| "is_Exception AttributeError = True"
| "is_Exception KeyError = True"
| "is_Exception TypeError = True"
| "is_Exception IndexError = True"
| "is_Exception ZeroDivisionError = True"
| "is_Exception OverflowError = True"
| "is_Exception (CalledProcessError m) = True"
| "is_Exception (RequestException m) = True"
| "is_Exception (ConnectionError m) = True"
| "is_Exception (HTTPError m) = True"
| "is_Exception (OtherException m) = True"
| "is_Exception (Exception m) = True"

text \<open>
  The classes of the HTTP library: \<open>ConnectionError\<close> and \<open>HTTPError\<close> derive from
  \<open>RequestException\<close>, so \<open>except requests.RequestException\<close> catches the three.
\<close>

fun is_RequestException :: "error \<Rightarrow> bool" where
  "is_RequestException (RequestException m) = True"
| "is_RequestException (ConnectionError m) = True"
| "is_RequestException (HTTPError m) = True"
| "is_RequestException AttributeError = False"
| "is_RequestException KeyError = False"
| "is_RequestException TypeError = False"
| "is_RequestException IndexError = False"
| "is_RequestException ZeroDivisionError = False"
| "is_RequestException OverflowError = False"
| "is_RequestException (CalledProcessError m) = False"
| "is_RequestException (OtherException m) = False"
| "is_RequestException (Exception m) = False"
| "is_RequestException KeyboardInterrupt = False"
| "is_RequestException CancelledError = False"

text \<open>\<open>str(e)\<close> for an exception built from a message.\<close>

fun message_of :: "error \<Rightarrow> string" where
  "message_of (RequestException m) = m"
| "message_of (ConnectionError m) = m"
| "message_of (HTTPError m) = m"
| "message_of (CalledProcessError m) = m"
| "message_of (OtherException m) = m"
| "message_of (Exception m) = m"
| "message_of AttributeError = []"
| "message_of KeyError = []"
| "message_of TypeError = []"
| "message_of IndexError = []"
| "message_of ZeroDivisionError = []"
| "message_of OverflowError = []"
| "message_of KeyboardInterrupt = []"
| "message_of CancelledError = []"

text \<open>Truth value testing, as \<open>if x:\<close> and \<open>and\<close> do it.\<close>

fun truthy :: "json \<Rightarrow> bool" where
  "truthy JNone = False"
| "truthy (JBool b) = b"
| "truthy (JInt n) = (n \<noteq> 0)"
| "truthy (JStr s) = (s \<noteq> [])"
| "truthy (JList xs) = (xs \<noteq> [])"
| "truthy (JDict kvs) = (kvs \<noteq> [])"

text \<open>\<open>x.get(k, d)\<close>: only a dictionary has the method.\<close>

fun py_get :: "json \<Rightarrow> string \<Rightarrow> json \<Rightarrow> error + json" where
  "py_get (JDict kvs) k d = Inr (case map_of kvs k of None \<Rightarrow> d | Some v \<Rightarrow> v)"
| "py_get JNone k d = Inl AttributeError"
| "py_get (JBool b) k d = Inl AttributeError"
| "py_get (JInt n) k d = Inl AttributeError"
| "py_get (JStr s) k d = Inl AttributeError"
| "py_get (JList xs) k d = Inl AttributeError"

text \<open>
  \<open>x[k]\<close> for a string \<open>k\<close>: a dictionary without the key raises KeyError; strings and
  lists want an integer index, the other values are not subscriptable (TypeError both).
\<close>

fun py_getitem :: "json \<Rightarrow> string \<Rightarrow> error + json" where
  "py_getitem (JDict kvs) k = (case map_of kvs k of None \<Rightarrow> Inl KeyError | Some v \<Rightarrow> Inr v)"
| "py_getitem JNone k = Inl TypeError"
| "py_getitem (JBool b) k = Inl TypeError"
| "py_getitem (JInt n) k = Inl TypeError"
| "py_getitem (JStr s) k = Inl TypeError"
| "py_getitem (JList xs) k = Inl TypeError"

text \<open>
  \<open>for x in v\<close>: a list yields its elements, a dictionary its keys, a string its
  characters; anything else is not iterable.
\<close>

fun py_iter :: "json \<Rightarrow> error + json list" where
  "py_iter (JList xs) = Inr xs"
| "py_iter (JDict kvs) = Inr (map (\<lambda>kv. JStr (fst kv)) kvs)"
| "py_iter (JStr s) = Inr (map (\<lambda>c. JStr [c]) s)"
| "py_iter JNone = Inl TypeError"
| "py_iter (JBool b) = Inl TypeError"
| "py_iter (JInt n) = Inl TypeError"

text \<open>
  Members of a Python \<open>set\<close> are hashed and compared with \<open>==\<close>. Lists and dictionaries
  are unhashable; among the hashable values \<open>True == 1\<close> and \<open>False == 0\<close>.
\<close>

fun hashable :: "json \<Rightarrow> bool" where
  "hashable (JList xs) = False"
| "hashable (JDict kvs) = False"
| "hashable JNone = True"
| "hashable (JBool b) = True"
| "hashable (JInt n) = True"
| "hashable (JStr s) = True"

fun num_of :: "json \<Rightarrow> int option" where
  "num_of (JBool b) = Some (if b then 1 else 0)"
| "num_of (JInt n) = Some n"
| "num_of JNone = None"
| "num_of (JStr s) = None"
| "num_of (JList xs) = None"
| "num_of (JDict kvs) = None"

definition py_eq :: "json \<Rightarrow> json \<Rightarrow> bool" where
  "py_eq a b =
     (case num_of a of
        Some m \<Rightarrow> (case num_of b of Some n \<Rightarrow> m = n | None \<Rightarrow> False)
      | None \<Rightarrow> (case num_of b of Some n \<Rightarrow> False | None \<Rightarrow> a = b))"

text \<open>\<open>k in seen\<close> for a set \<open>seen\<close>, kept as the list of its members.\<close>

definition in_seen :: "json \<Rightarrow> json list \<Rightarrow> error + bool" where
  "in_seen k seen = (if hashable k then Inr (list_ex (py_eq k) seen) else Inl TypeError)"

section \<open>Deduplication (testyboy.py)\<close>

text \<open>
  The guard of the loop body,
  \<^verbatim>\<open>result and result.get('track') and result['track']['key'] not in seen\<close>,
  evaluated left to right with short circuit: \<open>Inr None\<close> when it is false,
  \<open>Inr (Some key)\<close> when it is true, \<open>Inl\<close> when evaluating it raises.
\<close>

definition new_track_key :: "json list \<Rightarrow> json \<Rightarrow> error + json option" where
  "new_track_key seen result =
     (if \<not> truthy result then Inr None
      else case py_get result ''track'' JNone of
             Inl e \<Rightarrow> Inl e
           | Inr t \<Rightarrow>
               if \<not> truthy t then Inr None
               else (case py_getitem result ''track'' of
                       Inl e \<Rightarrow> Inl e
                     | Inr track \<Rightarrow>
                         (case py_getitem track ''key'' of
                            Inl e \<Rightarrow> Inl e
                          | Inr k \<Rightarrow>
                              (case in_seen k seen of
                                 Inl e \<Rightarrow> Inl e
                               | Inr b \<Rightarrow> Inr (if b then None else Some k)))))"

text \<open>The loop over \<open>results\<close>, with the set \<open>seen\<close> and the list \<open>deduplicated\<close> as state.\<close>

fun deduplicate_loop :: "json list \<Rightarrow> json list \<Rightarrow> json list \<Rightarrow> error + json list" where
  "deduplicate_loop seen deduplicated [] = Inr deduplicated"
| "deduplicate_loop seen deduplicated (result # results) =
     (case new_track_key seen result of
        Inl e \<Rightarrow> Inl e
      | Inr None \<Rightarrow> deduplicate_loop seen deduplicated results
      | Inr (Some k) \<Rightarrow> deduplicate_loop (seen @ [k]) (deduplicated @ [result]) results)"

definition deduplicate_results :: "json list \<Rightarrow> error + json list" where
  "deduplicate_results results = deduplicate_loop [] [] results"






section \<open>Metadata extraction\<close>

subsection \<open>The pipeline's extractor (testyboy.py)\<close>

text \<open>
  The inner loop \<^verbatim>\<open>for meta in metadata\<close> with the two variables \<open>album\<close> and
  \<open>year_released\<close> as state. Both tests read \<open>meta.get("title")\<close>; a later matching
  entry overwrites what an earlier one stored.
\<close>

fun scan_metadata :: "json \<times> json \<Rightarrow> json list \<Rightarrow> error + json \<times> json" where
  "scan_metadata (album, year_released) [] = Inr (album, year_released)"
| "scan_metadata (album, year_released) (meta # metas) =
     (case py_get meta ''title'' JNone of
        Inl e \<Rightarrow> Inl e
      | Inr t1 \<Rightarrow>
          (case (if t1 = JStr ''Album'' then py_get meta ''text'' (JStr ''Unknown Album'')
                 else Inr album) of
             Inl e \<Rightarrow> Inl e
           | Inr album' \<Rightarrow>
               (case py_get meta ''title'' JNone of
                  Inl e \<Rightarrow> Inl e
                | Inr t2 \<Rightarrow>
                    (case (if t2 = JStr ''Released''
                           then py_get meta ''text'' (JStr ''Unknown Year'')
                           else Inr year_released) of
                       Inl e \<Rightarrow> Inl e
                     | Inr year' \<Rightarrow> scan_metadata (album', year') metas))))"

text \<open>The outer loop \<^verbatim>\<open>for section in sections\<close>.\<close>

fun scan_sections :: "json \<times> json \<Rightarrow> json list \<Rightarrow> error + json \<times> json" where
  "scan_sections ay [] = Inr ay"
| "scan_sections ay (section # sections) =
     (case py_get section ''metadata'' (JList []) of
        Inl e \<Rightarrow> Inl e
      | Inr metadata \<Rightarrow>
          (case py_iter metadata of
             Inl e \<Rightarrow> Inl e
           | Inr metas \<Rightarrow>
               (case scan_metadata ay metas of
                  Inl e \<Rightarrow> Inl e
                | Inr ay' \<Rightarrow> scan_sections ay' sections)))"

text \<open>\<open>extract_track_info(entry, timestamp)\<close>; the result is the dictionary it builds.\<close>

definition extract_track_info :: "json \<Rightarrow> json \<Rightarrow> error + json" where
  "extract_track_info entry timestamp =
     (case py_get entry ''track'' (JDict []) of
        Inl e \<Rightarrow> Inl e
      | Inr track_info \<Rightarrow>
     (case py_get track_info ''title'' (JStr ''Unknown Track Name'') of
        Inl e \<Rightarrow> Inl e
      | Inr title \<Rightarrow>
     (case py_get track_info ''subtitle'' (JStr ''Unknown Artist'') of
        Inl e \<Rightarrow> Inl e
      | Inr artist \<Rightarrow>
     (case py_get track_info ''genres'' (JDict []) of
        Inl e \<Rightarrow> Inl e
      | Inr genres \<Rightarrow>
     (case py_get genres ''primary'' (JStr ''Unknown Genre'') of
        Inl e \<Rightarrow> Inl e
      | Inr genre \<Rightarrow>
     (case py_get track_info ''sections'' (JList []) of
        Inl e \<Rightarrow> Inl e
      | Inr sections \<Rightarrow>
     (case py_iter sections of
        Inl e \<Rightarrow> Inl e
      | Inr secs \<Rightarrow>
     (case scan_sections (JStr ''Unknown Album'', JStr ''Unknown Year'') secs of
        Inl e \<Rightarrow> Inl e
      | Inr (album, year_released) \<Rightarrow>
          Inr (JDict [(''Track Name'', title), (''Artist'', artist), (''Album'', album),
                      (''Genre'', genre), (''Year Released'', year_released),
                      (''Timestamp'', timestamp)])))))))))"

subsection \<open>The user interface's extractor (test\_ui.py)\<close>

definition App_extract_track_info :: "json \<Rightarrow> json \<Rightarrow> error + json" where
  "App_extract_track_info entry chunk_timestamp =
     (case py_get entry ''track'' (JDict []) of
        Inl e \<Rightarrow> Inl e
      | Inr track_info \<Rightarrow>
     (case py_get track_info ''title'' (JStr ''Unknown'') of
        Inl e \<Rightarrow> Inl e
      | Inr title \<Rightarrow>
     (case py_get track_info ''subtitle'' (JStr ''Unknown'') of
        Inl e \<Rightarrow> Inl e
      | Inr artist \<Rightarrow>
          Inr (JDict [(''Track Name'', title), (''Artist'', artist),
                      (''Timestamp'', chunk_timestamp)]))))"

subsection \<open>The stand-alone extractor (clean.py)\<close>

text \<open>\<open>x[0]\<close>: the first element of a list or string; a dictionary with string keys has no key \<open>0\<close>.\<close>

fun py_first :: "json \<Rightarrow> error + json" where
  "py_first (JList []) = Inl IndexError"
| "py_first (JList (x # xs)) = Inr x"
| "py_first (JStr []) = Inl IndexError"
| "py_first (JStr (c # cs)) = Inr (JStr [c])"
| "py_first (JDict kvs) = Inl KeyError"
| "py_first JNone = Inl TypeError"
| "py_first (JBool b) = Inl TypeError"
| "py_first (JInt n) = Inl TypeError"

text \<open>
  \<^verbatim>\<open>next((meta.get("text") for meta in metas if meta.get("title") == key), default)\<close>:
  the generator stops at the first entry that passes the test.
\<close>

fun first_text :: "string \<Rightarrow> json list \<Rightarrow> json \<Rightarrow> error + json" where
  "first_text key [] d = Inr d"
| "first_text key (meta # metas) d =
     (case py_get meta ''title'' JNone of
        Inl e \<Rightarrow> Inl e
      | Inr t \<Rightarrow> if t = JStr key then py_get meta ''text'' JNone else first_text key metas d)"

text \<open>The metadata list the generator runs over: that of the first section only.\<close>

definition first_section_metadata :: "json \<Rightarrow> error + json list" where
  "first_section_metadata track =
     (case py_get track ''sections'' (JList [JDict []]) of
        Inl e \<Rightarrow> Inl e
      | Inr sections \<Rightarrow>
     (case py_first sections of
        Inl e \<Rightarrow> Inl e
      | Inr section \<Rightarrow>
     (case py_get section ''metadata'' (JList []) of
        Inl e \<Rightarrow> Inl e
      | Inr metadata \<Rightarrow> py_iter metadata)))"

text \<open>The body of the loop for an item with a non-empty track.\<close>

definition clean_track_record :: "json \<Rightarrow> error + json" where
  "clean_track_record track =
     (case py_get track ''title'' (JStr ''Unknown Title'') of
        Inl e \<Rightarrow> Inl e
      | Inr title \<Rightarrow>
     (case py_get track ''subtitle'' (JStr ''Unknown Artist'') of
        Inl e \<Rightarrow> Inl e
      | Inr subtitle \<Rightarrow>
     (case first_section_metadata track of
        Inl e \<Rightarrow> Inl e
      | Inr metas \<Rightarrow>
     (case first_text ''Album'' metas (JStr ''Unknown Album'') of
        Inl e \<Rightarrow> Inl e
      | Inr album \<Rightarrow>
     (case py_get track ''genres'' (JDict []) of
        Inl e \<Rightarrow> Inl e
      | Inr genres \<Rightarrow>
     (case py_get genres ''primary'' (JStr ''Unknown Genre'') of
        Inl e \<Rightarrow> Inl e
      | Inr genre \<Rightarrow>
     (case first_section_metadata track of
        Inl e \<Rightarrow> Inl e
      | Inr metas' \<Rightarrow>
     (case first_text ''Released'' metas' (JStr ''Unknown Year'') of
        Inl e \<Rightarrow> Inl e
      | Inr release_year \<Rightarrow>
          Inr (JDict [(''Artist'', subtitle), (''Album'', album), (''Track Name'', title),
                      (''Genre'', genre), (''Year Released'', release_year)])))))))))"

fun clean_extract_track_info :: "json list \<Rightarrow> error + json list" where
  "clean_extract_track_info [] = Inr []"
| "clean_extract_track_info (item # data) =
     (case py_get item ''track'' (JDict []) of
        Inl e \<Rightarrow> Inl e
      | Inr track \<Rightarrow>
          if truthy track then
            (case clean_track_record track of
               Inl e \<Rightarrow> Inl e
             | Inr r \<Rightarrow>
                 (case clean_extract_track_info data of
                    Inl e \<Rightarrow> Inl e
                  | Inr rs \<Rightarrow> Inr (r # rs)))
          else clean_extract_track_info data)"

subsection \<open>What the extractor computes, stated on the flattened metadata\<close>

text \<open>
  The metadata entries of a payload across all its sections, in order; a part that is
  missing contributes no entry.
\<close>

definition section_entries :: "json \<Rightarrow> json list" where
  "section_entries section =
     (case py_get section ''metadata'' (JList []) of
        Inl e \<Rightarrow> []
      | Inr metadata \<Rightarrow> (case py_iter metadata of Inl e \<Rightarrow> [] | Inr metas \<Rightarrow> metas))"

definition all_entries :: "json \<Rightarrow> json list" where
  "all_entries entry =
     (case py_get entry ''track'' (JDict []) of
        Inl e \<Rightarrow> []
      | Inr track_info \<Rightarrow>
     (case py_get track_info ''sections'' (JList []) of
        Inl e \<Rightarrow> []
      | Inr sections \<Rightarrow>
     (case py_iter sections of
        Inl e \<Rightarrow> []
      | Inr secs \<Rightarrow> concat (map section_entries secs))))"

definition has_title :: "string \<Rightarrow> json \<Rightarrow> bool" where
  "has_title key meta = (py_get meta ''title'' JNone = Inr (JStr key))"

definition text_of :: "string \<Rightarrow> json \<Rightarrow> json" where
  "text_of dflt meta = (case py_get meta ''text'' (JStr dflt) of Inl e \<Rightarrow> JStr dflt | Inr v \<Rightarrow> v)"

text \<open>
  The text of the last entry titled \<open>key\<close>, or the default when no entry is titled so
  (or when that entry has no text).
\<close>

definition last_matching_text :: "string \<Rightarrow> string \<Rightarrow> json list \<Rightarrow> json" where
  "last_matching_text key dflt metas =
     (case rev (filter (has_title key) metas) of
        [] \<Rightarrow> JStr dflt
      | m # ms \<Rightarrow> text_of dflt m)"

text \<open>The same with a value already stored, as the loops carry it.\<close>

definition stored_text :: "string \<Rightarrow> string \<Rightarrow> json \<Rightarrow> json list \<Rightarrow> json" where
  "stored_text key dflt stored metas =
     (case rev (filter (has_title key) metas) of
        [] \<Rightarrow> stored
      | m # ms \<Rightarrow> text_of dflt m)"


subsection \<open>Payloads with the expected shape\<close>

text \<open>
  A field of the payload reached by a path of dictionary keys; \<open>None\<close> when a key on the
  path is absent (or what is found on the way is no dictionary).
\<close>

fun payload_field :: "json \<Rightarrow> string list \<Rightarrow> json option" where
  "payload_field v [] = Some v"
| "payload_field (JDict kvs) (k # ks) =
     (case map_of kvs k of None \<Rightarrow> None | Some v \<Rightarrow> payload_field v ks)"
| "payload_field JNone (k # ks) = None"
| "payload_field (JBool b) (k # ks) = None"
| "payload_field (JInt n) (k # ks) = None"
| "payload_field (JStr s) (k # ks) = None"
| "payload_field (JList xs) (k # ks) = None"

definition or_default :: "json option \<Rightarrow> string \<Rightarrow> json" where
  "or_default field dflt = (case field of None \<Rightarrow> JStr dflt | Some v \<Rightarrow> v)"

fun is_dict :: "json \<Rightarrow> bool" where
  "is_dict (JDict kvs) = True"
| "is_dict JNone = False"
| "is_dict (JBool b) = False"
| "is_dict (JInt n) = False"
| "is_dict (JStr s) = False"
| "is_dict (JList xs) = False"

text \<open>A list of dictionaries.\<close>

fun is_dict_list :: "json \<Rightarrow> bool" where
  "is_dict_list (JList xs) = list_all is_dict xs"
| "is_dict_list JNone = False"
| "is_dict_list (JBool b) = False"
| "is_dict_list (JInt n) = False"
| "is_dict_list (JStr s) = False"
| "is_dict_list (JDict kvs) = False"

text \<open>
  The shape the extractor relies on: where present, \<open>track\<close> and \<open>genres\<close> are
  dictionaries, \<open>sections\<close> is a list of dictionaries, and the \<open>metadata\<close> of each section
  is a list of dictionaries. Absent parts are allowed everywhere.
\<close>

definition section_shaped :: "json \<Rightarrow> bool" where
  "section_shaped section =
     (case payload_field section [''metadata''] of None \<Rightarrow> True | Some m \<Rightarrow> is_dict_list m)"

fun sections_shaped :: "json \<Rightarrow> bool" where
  "sections_shaped (JList xs) = (list_all is_dict xs \<and> list_all section_shaped xs)"
| "sections_shaped JNone = False"
| "sections_shaped (JBool b) = False"
| "sections_shaped (JInt n) = False"
| "sections_shaped (JStr s) = False"
| "sections_shaped (JDict kvs) = False"

definition well_shaped :: "json \<Rightarrow> bool" where
  "well_shaped entry =
     (is_dict entry \<and>
      (case payload_field entry [''track''] of None \<Rightarrow> True | Some t \<Rightarrow> is_dict t) \<and>
      (case payload_field entry [''track'', ''genres''] of None \<Rightarrow> True | Some g \<Rightarrow> is_dict g) \<and>
      (case payload_field entry [''track'', ''sections''] of
         None \<Rightarrow> True
       | Some s \<Rightarrow> sections_shaped s))"

section \<open>Recognition client\<close>

text \<open>
  What the call \<^verbatim>\<open>await shazam.recognize(file_path)\<close> does for one chunk is an
  input of the model: the service returns a payload or the call raises.
\<close>

datatype recognition = Returns json | Raises error

text \<open>
  \<open>analyze_chunk_with_shazam\<close>, the same in testyboy.py and test\_ui.py: the result of
  the call, or \<open>None\<close> when the call raises an \<open>Exception\<close>.
\<close>

definition analyze_chunk_with_shazam :: "recognition \<Rightarrow> error + json" where
  "analyze_chunk_with_shazam reply =
     (case reply of
        Returns result \<Rightarrow> Inr result
      | Raises e \<Rightarrow> if is_Exception e then Inr JNone else Inl e)"

section \<open>The command-line pipeline (testyboy.py, main)\<close>

text \<open>
  The loop \<^verbatim>\<open>for chunk in chunks\<close> that fills \<open>results\<close>; each chunk is given by the
  reply the service has for it.
\<close>

fun analyze_loop :: "json list \<Rightarrow> recognition list \<Rightarrow> error + json list" where
  "analyze_loop results [] = Inr results"
| "analyze_loop results (reply # replies) =
     (case analyze_chunk_with_shazam reply of
        Inl e \<Rightarrow> Inl e
      | Inr result \<Rightarrow>
          analyze_loop (if truthy result then results @ [result] else results) replies)"

text \<open>
  The comprehension
  \<^verbatim>\<open>[extract_track_info(result, chunk["timestamp"]) for result, chunk in zip(...)]\<close>.
\<close>

fun extract_pairs :: "(json \<times> json) list \<Rightarrow> error + json list" where
  "extract_pairs [] = Inr []"
| "extract_pairs ((result, chunk) # pairs) =
     (case py_getitem chunk ''timestamp'' of
        Inl e \<Rightarrow> Inl e
      | Inr timestamp \<Rightarrow>
          (case extract_track_info result timestamp of
             Inl e \<Rightarrow> Inl e
           | Inr info \<Rightarrow>
               (case extract_pairs pairs of
                  Inl e \<Rightarrow> Inl e
                | Inr infos \<Rightarrow> Inr (info # infos))))"

text \<open>
  \<open>main\<close> from the analysis of the chunks to \<open>extracted_info\<close>. Its own
  \<open>except Exception\<close> prints the error; here the error is the result.
\<close>

definition main_pipeline :: "recognition list \<Rightarrow> error + json list" where
  "main_pipeline replies =
     (case analyze_loop [] replies of
        Inl e \<Rightarrow> Inl e
      | Inr results \<Rightarrow>
          (case deduplicate_results results of
             Inl e \<Rightarrow> Inl e
           | Inr deduplicated_results \<Rightarrow> extract_pairs (zip deduplicated_results results)))"

section \<open>The user interface's pipeline (test\_ui.py, process\_pipeline)\<close>

text \<open>
  A chunk as \<open>split_audio_into_chunks\<close> of test\_ui.py lists it: the dictionary with
  the keys \<open>file\<close> and \<open>timestamp\<close>.
\<close>

record chunk =
  file_name :: string
  time_stamp :: string

text \<open>The loop that fills \<open>results\<close> with the payload and the timestamp of its chunk.\<close>

fun App_analyze_loop :: "json list \<Rightarrow> (chunk \<times> recognition) list \<Rightarrow> error + json list" where
  "App_analyze_loop results [] = Inr results"
| "App_analyze_loop results ((chunk, reply) # chunks) =
     (case analyze_chunk_with_shazam reply of
        Inl e \<Rightarrow> Inl e
      | Inr result \<Rightarrow>
          App_analyze_loop
            (if truthy result
             then results @ [JDict [(''data'', result),
                                    (''chunk_timestamp'', JStr (time_stamp chunk))]]
             else results) chunks)"

fun App_extract_all :: "json list \<Rightarrow> error + json list" where
  "App_extract_all [] = Inr []"
| "App_extract_all (result # results) =
     (case py_getitem result ''data'' of
        Inl e \<Rightarrow> Inl e
      | Inr data \<Rightarrow>
          (case py_getitem result ''chunk_timestamp'' of
             Inl e \<Rightarrow> Inl e
           | Inr chunk_timestamp \<Rightarrow>
               (case App_extract_track_info data chunk_timestamp of
                  Inl e \<Rightarrow> Inl e
                | Inr track \<Rightarrow>
                    (case App_extract_all results of
                       Inl e \<Rightarrow> Inl e
                     | Inr tracks \<Rightarrow> Inr (track # tracks)))))"

definition process_pipeline :: "(chunk \<times> recognition) list \<Rightarrow> error + json list" where
  "process_pipeline chunks =
     (case App_analyze_loop [] chunks of
        Inl e \<Rightarrow> Inl e
      | Inr results \<Rightarrow> App_extract_all results)"


section \<open>Search adapter (test\_ui.py, slskd\_search)\<close>

text \<open>
  What \<open>requests.post\<close> does is an input of the model: it raises, or it returns a
  response with a status code, the message \<open>raise_for_status\<close> would raise with, and
  what \<open>response.json()\<close> gives (a document, or the exception the decoder raises).
\<close>

record http_response =
  status_code :: nat
  status_message :: string
  json_body :: "error + json"

datatype post_outcome = Post_raises error | Post_returns http_response

text \<open>The request document built from the query.\<close>

definition search_payload :: "string \<Rightarrow> json" where
  "search_payload track_name =
     JDict [(''jsonrpc'', JStr ''2.0''), (''method'', JStr ''search''),
            (''params'', JDict [(''query'', JStr track_name)]), (''id'', JInt 1)]"

text \<open>\<open>response.raise_for_status()\<close>: an \<open>HTTPError\<close> for the status codes 400 to 599.\<close>

definition raise_for_status :: "http_response \<Rightarrow> error + unit" where
  "raise_for_status response =
     (if 400 \<le> status_code response \<and> status_code response < 600
      then Inl (HTTPError (status_message response)) else Inr ())"

text \<open>The body of the \<open>try\<close> block.\<close>

definition search_request :: "(json \<Rightarrow> post_outcome) \<Rightarrow> string \<Rightarrow> error + json" where
  "search_request post track_name =
     (case post (search_payload track_name) of
        Post_raises e \<Rightarrow> Inl e
      | Post_returns response \<Rightarrow>
          (case raise_for_status response of
             Inl e \<Rightarrow> Inl e
           | Inr u \<Rightarrow>
               (case json_body response of
                  Inl e \<Rightarrow> Inl e
                | Inr document \<Rightarrow> py_get document ''result'' (JList []))))"

text \<open>The candidate that stands for a transport error.\<close>

definition error_candidate :: "error \<Rightarrow> json" where
  "error_candidate e =
     JDict [(''username'', JStr ''Error''), (''path'', JStr (message_of e)),
            (''filesize'', JStr ''N/A'')]"

definition slskd_search :: "(json \<Rightarrow> post_outcome) \<Rightarrow> string \<Rightarrow> error + json" where
  "slskd_search post track_name =
     (case search_request post track_name of
        Inr results \<Rightarrow> Inr results
      | Inl e \<Rightarrow> if is_RequestException e then Inr (JList [error_candidate e]) else Inl e)"

section \<open>Audio acquisition (download\_youtube\_audio, the same in both scripts)\<close>

text \<open>
  The operating system is an input of the model: what \<open>subprocess.run\<close> with
  \<open>check=True\<close> does for the command (it returns, or raises \<open>CalledProcessError\<close> with
  the decoded error output, or another error), and what \<open>os.listdir\<close> lists afterwards.
\<close>

record system =
  run_process :: "string list \<Rightarrow> error + unit"
  listdir :: "string \<Rightarrow> error + string list"

text \<open>\<open>os.path.join\<close> of two components, on POSIX.\<close>

definition path_join :: "string \<Rightarrow> string \<Rightarrow> string" where
  "path_join a b =
     (if b \<noteq> [] \<and> hd b = CHR ''/'' then b
      else if a = [] \<or> last a = CHR ''/'' then a @ b
      else a @ ''/'' @ b)"

definition startswith :: "string \<Rightarrow> string \<Rightarrow> bool" where
  "startswith s p = (take (length p) s = p)"

definition endswith :: "string \<Rightarrow> string \<Rightarrow> bool" where
  "endswith s p = (length p \<le> length s \<and> drop (length s - length p) s = p)"

definition is_audio_file :: "string \<Rightarrow> bool" where
  "is_audio_file f = (startswith f ''audio_file'' \<and> endswith f ''.mp3'')"

definition download_command :: "string \<Rightarrow> string \<Rightarrow> string list" where
  "download_command youtube_url temp_dir =
     [''python3'', ''-m'', ''yt_dlp'', ''--verbose'', ''--extract-audio'',
      ''--audio-format'', ''mp3'', ''--audio-quality'', ''192K'',
      ''-o'', path_join temp_dir ''audio_file.%(ext)s'', youtube_url]"

text \<open>
  The loop over the listing returns at the first match; when it ends without one the
  function falls off its end and returns \<open>None\<close>.
\<close>

fun first_audio_file :: "string \<Rightarrow> string list \<Rightarrow> string option" where
  "first_audio_file temp_dir [] = None"
| "first_audio_file temp_dir (f # fs) =
     (if is_audio_file f then Some (path_join temp_dir f) else first_audio_file temp_dir fs)"

text \<open>The body of the \<open>try\<close> block.\<close>

definition download_attempt :: "system \<Rightarrow> string \<Rightarrow> string \<Rightarrow> error + string option" where
  "download_attempt os youtube_url temp_dir =
     (case run_process os (download_command youtube_url temp_dir) of
        Inl e \<Rightarrow> Inl e
      | Inr u \<Rightarrow>
          (case listdir os temp_dir of
             Inl e \<Rightarrow> Inl e
           | Inr files \<Rightarrow> Inr (first_audio_file temp_dir files)))"

text \<open>
  The handler \<open>except subprocess.CalledProcessError\<close> raises an \<open>Exception\<close> with the
  error output in its message; any other error passes through.
\<close>

definition download_youtube_audio :: "system \<Rightarrow> string \<Rightarrow> string \<Rightarrow> error + string option" where
  "download_youtube_audio os youtube_url temp_dir =
     (case download_attempt os youtube_url temp_dir of
        Inr audio_file \<Rightarrow> Inr audio_file
      | Inl (CalledProcessError stderr) \<Rightarrow> Inl (Exception (''Error downloading audio: '' @ stderr))
      | Inl e \<Rightarrow> Inl e)"

section \<open>Segmentation (split\_audio\_into\_chunks)\<close>

subsection \<open>Rendering numbers and times\<close>

definition digit :: "nat \<Rightarrow> char" where
  "digit n = ''0123456789'' ! n"

text \<open>\<open>str(n)\<close> for a natural number, in decimal.\<close>

fun str_nat :: "nat \<Rightarrow> string" where
  "str_nat n = (if n < 10 then [digit n] else str_nat (n div 10) @ [digit (n mod 10)])"

declare str_nat.simps [simp del]

definition str_int :: "int \<Rightarrow> string" where
  "str_int i = (if i < 0 then ''-'' @ str_nat (nat (- i)) else str_nat (nat i))"

text \<open>The formats \<open>%02d\<close> and \<open>:02\<close> for a number that is not negative.\<close>

definition pad2 :: "nat \<Rightarrow> string" where
  "pad2 n = (if n < 10 then ''0'' @ str_nat n else str_nat n)"

text \<open>
  \<open>str(timedelta(seconds=s))\<close>: the days are split off, with Python's floor division,
  and a duration of more than 999999999 days either way is an OverflowError.
\<close>

definition timedelta_str :: "int \<Rightarrow> error + string" where
  "timedelta_str s =
     (let days = s div 86400; secs = nat (s mod 86400) in
      if \<bar>days\<bar> > 999999999 then Inl OverflowError
      else Inr ((if days \<noteq> 0
                 then str_int days @ '' day'' @ (if \<bar>days\<bar> \<noteq> 1 then ''s'' else '''') @ '', ''
                 else '''')
                @ str_nat (secs div 3600) @ '':'' @ pad2 ((secs div 60) mod 60)
                @ '':'' @ pad2 (secs mod 60)))"

text \<open>\<open>format_time\<close> of testyboy.py.\<close>

definition format_time :: "int \<Rightarrow> error + string" where
  "format_time milliseconds =
     (let seconds = milliseconds div 1000 in
      case timedelta_str seconds of
        Inl e \<Rightarrow> Inl e
      | Inr time_format \<Rightarrow> Inr (map (\<lambda>c. if c = CHR '':'' then CHR ''_'' else c) time_format))"

subsection \<open>The audio library\<close>

text \<open>
  The decoder and chunker come from a library outside the repository and are parameters
  of the model: \<open>AudioSegment.from_file\<close> (given the path, or \<open>None\<close>),
  \<open>make_chunks\<close>, the \<open>export\<close> of one chunk to a file, and the root that
  \<open>os.path.splitext\<close> splits off a path.
\<close>

record 'a audio_library =
  from_file :: "string option \<Rightarrow> error + 'a"
  make_chunks :: "'a \<Rightarrow> int \<Rightarrow> error + 'a list"
  export_mp3 :: "'a \<Rightarrow> string \<Rightarrow> error + unit"
  splitext_root :: "string \<Rightarrow> string"

subsection \<open>testyboy.py\<close>

text \<open>The loop \<^verbatim>\<open>for i, chunk in enumerate(chunks)\<close> with \<open>chunk_paths\<close> as state.\<close>

fun split_loop ::
  "'a audio_library \<Rightarrow> string option \<Rightarrow> int \<Rightarrow> string list \<Rightarrow> nat \<Rightarrow> 'a list
     \<Rightarrow> error + string list" where
  "split_loop lib audio_file chunk_duration chunk_paths i [] = Inr chunk_paths"
| "split_loop lib audio_file chunk_duration chunk_paths i (chunk # chunks) =
     (case format_time (int i * chunk_duration * 1000) of
        Inl e \<Rightarrow> Inl e
      | Inr start_time \<Rightarrow>
          (case audio_file of
             None \<Rightarrow> Inl TypeError
           | Some path \<Rightarrow>
               (case export_mp3 lib chunk
                       (splitext_root lib path @ ''_chunk_'' @ start_time @ ''.mp3'') of
                  Inl e \<Rightarrow> Inl e
                | Inr u \<Rightarrow>
                    split_loop lib audio_file chunk_duration
                      (chunk_paths @ [splitext_root lib path @ ''_chunk_'' @ start_time @ ''.mp3''])
                      (Suc i) chunks)))"

definition split_audio_into_chunks ::
  "'a audio_library \<Rightarrow> string option \<Rightarrow> int \<Rightarrow> error + string list" where
  "split_audio_into_chunks lib audio_file chunk_duration =
     (case from_file lib audio_file of
        Inl e \<Rightarrow> Inl e
      | Inr audio \<Rightarrow>
          (case make_chunks lib audio (chunk_duration * 1000) of
             Inl e \<Rightarrow> Inl e
           | Inr chunks \<Rightarrow> split_loop lib audio_file chunk_duration [] 0 chunks))"

subsection \<open>test\_ui.py\<close>

text \<open>The start offset as minutes and seconds, \<^verbatim>\<open>f"{(i*d)//60}:{(i*d)%60:02}"\<close>.\<close>

definition App_start_time :: "nat \<Rightarrow> int \<Rightarrow> string" where
  "App_start_time i chunk_duration =
     str_int ((int i * chunk_duration) div 60) @ '':''
       @ pad2 (nat ((int i * chunk_duration) mod 60))"

fun App_split_loop ::
  "'a audio_library \<Rightarrow> string option \<Rightarrow> int \<Rightarrow> chunk list \<Rightarrow> nat \<Rightarrow> 'a list
     \<Rightarrow> error + chunk list" where
  "App_split_loop lib audio_file chunk_duration chunk_paths i [] = Inr chunk_paths"
| "App_split_loop lib audio_file chunk_duration chunk_paths i (chunk # chunks) =
     (case audio_file of
        None \<Rightarrow> Inl TypeError
      | Some path \<Rightarrow>
          (case export_mp3 lib chunk
                  (splitext_root lib path @ ''_chunk_''
                     @ App_start_time i chunk_duration @ ''.mp3'') of
             Inl e \<Rightarrow> Inl e
           | Inr u \<Rightarrow>
               App_split_loop lib audio_file chunk_duration
                 (chunk_paths @
                    [\<lparr>file_name = splitext_root lib path @ ''_chunk_''
                                    @ App_start_time i chunk_duration @ ''.mp3'',
                      time_stamp = App_start_time i chunk_duration\<rparr>])
                 (Suc i) chunks))"

definition App_split_audio_into_chunks ::
  "'a audio_library \<Rightarrow> string option \<Rightarrow> int \<Rightarrow> error + chunk list" where
  "App_split_audio_into_chunks lib audio_file chunk_duration =
     (case from_file lib audio_file of
        Inl e \<Rightarrow> Inl e
      | Inr audio \<Rightarrow>
          (case make_chunks lib audio (chunk_duration * 1000) of
             Inl e \<Rightarrow> Inl e
           | Inr chunks \<Rightarrow> App_split_loop lib audio_file chunk_duration [] 0 chunks))"

subsection \<open>From the download to the chunks\<close>

text \<open>
  The first two steps of \<open>main\<close>: the value \<open>download_youtube_audio\<close> returns is the
  argument of \<open>split_audio_into_chunks\<close>, whose chunk duration is left at its default.
\<close>

definition download_and_split ::
  "system \<Rightarrow> 'a audio_library \<Rightarrow> string \<Rightarrow> string \<Rightarrow> error + string list" where
  "download_and_split os lib youtube_url temp_dir =
     (case download_youtube_audio os youtube_url temp_dir of
        Inl e \<Rightarrow> Inl e
      | Inr audio_file \<Rightarrow> split_audio_into_chunks lib audio_file 40)"

subsection \<open>A library instance\<close>

text \<open>
  An audio is the list of its milliseconds. Chunking as the imported library does it:
  the number of chunks is the length divided by the chunk length, rounded up, and chunk
  \<open>i\<close> is the slice from \<open>i * chunk_length\<close> to \<open>(i + 1) * chunk_length\<close>; a chunk
  length of zero is a division by zero. (A negative chunk length gives a number of
  chunks that is not positive, hence no chunk.)
\<close>

definition chunks_by_length :: "nat list \<Rightarrow> int \<Rightarrow> error + nat list list" where
  "chunks_by_length audio chunk_length =
     (if chunk_length = 0 then Inl ZeroDivisionError
      else Inr (map (\<lambda>i. take (nat chunk_length) (drop (i * nat chunk_length) audio))
                    [0 ..< nat (- ((- int (length audio)) div chunk_length))]))"

text \<open>A library that decodes every file to the given audio and writes every chunk.\<close>

definition library_with :: "nat list \<Rightarrow> nat list audio_library" where
  "library_with audio =
     \<lparr>from_file = (\<lambda>path. Inr audio),
      make_chunks = chunks_by_length,
      export_mp3 = (\<lambda>chunk name. Inr ()),
      splitext_root = (\<lambda>path. take (length path - 4) path)\<rparr>"

text \<open>The seconds a \<open>timedelta\<close> can hold.\<close>

definition in_timedelta_range :: "int \<Rightarrow> bool" where
  "in_timedelta_range s = (\<bar>s div 86400\<bar> \<le> 999999999)"

section \<open>Sample payloads\<close>

text \<open>
  A recognition payload as the service returns it for a match, cut down to the fields the
  scripts read: the track with its identity key and title, and the top-level
  \<open>timestamp\<close> entry.
\<close>

definition sample_payload :: "string \<Rightarrow> string \<Rightarrow> int \<Rightarrow> json" where
  "sample_payload key title stamp =
     JDict [(''track'', JDict [(''key'', JStr key), (''title'', JStr title)]),
            (''timestamp'', JInt stamp)]"


text \<open>A payload whose first section has no Album entry; the second has Album and Released.\<close>

definition second_section_payload :: json where
  "second_section_payload =
     JDict [(''track'', JDict [(''key'', JStr ''XYZ''), (''title'', JStr ''Song X''),
       (''sections'', JList
          [JDict [(''metadata'', JList [JDict [(''title'', JStr ''Label''), (''text'', JStr ''L'')]])],
           JDict [(''metadata'', JList [JDict [(''title'', JStr ''Album''), (''text'', JStr ''A'')],
                                        JDict [(''title'', JStr ''Released''), (''text'', JStr ''1999'')]])]])])]"

text \<open>A payload whose \<open>genres\<close> entry is a string instead of a dictionary.\<close>

definition genres_string_payload :: json where
  "genres_string_payload =
     JDict [(''track'', JDict [(''key'', JStr ''ABC''), (''title'', JStr ''Song A''),
                               (''genres'', JStr ''Rock'')])]"

text \<open>
  Three chunks of forty seconds each, as the user interface lists them, and three
  payloads: the first and the third name the track ABC, the second names XYZ.
\<close>

definition chunk0 :: chunk where
  "chunk0 = \<lparr>file_name = ''/tmp/t/audio_file_chunk_0:00.mp3'', time_stamp = ''0:00''\<rparr>"

definition chunk1 :: chunk where
  "chunk1 = \<lparr>file_name = ''/tmp/t/audio_file_chunk_0:40.mp3'', time_stamp = ''0:40''\<rparr>"

definition chunk2 :: chunk where
  "chunk2 = \<lparr>file_name = ''/tmp/t/audio_file_chunk_1:20.mp3'', time_stamp = ''1:20''\<rparr>"

definition payload_ABC_0 :: json where
  "payload_ABC_0 = sample_payload ''ABC'' ''Song A'' 100"

definition payload_XYZ_1 :: json where
  "payload_XYZ_1 = sample_payload ''XYZ'' ''Song X'' 200"

definition payload_ABC_2 :: json where
  "payload_ABC_2 = sample_payload ''ABC'' ''Song A'' 300"

definition payload_ABC_1 :: json where
  "payload_ABC_1 = sample_payload ''ABC'' ''Song A'' 200"

definition payload_XYZ_2 :: json where
  "payload_XYZ_2 = sample_payload ''XYZ'' ''Song X'' 300"

section \<open>Properties of deduplication\<close>














lemma sample_new_track_key:
  "new_track_key seen (sample_payload key title stamp) =
     Inr (if list_ex (py_eq (JStr key)) seen then None else Some (JStr key))"
  by (simp add: new_track_key_def sample_payload_def in_seen_def)

lemma py_eq_JStr [simp]: "py_eq (JStr a) (JStr b) = (a = b)"
  by (simp add: py_eq_def)


text \<open>
  Claim C6. A result whose \<open>track\<close> record is present and non-empty but carries no
  \<open>key\<close> entry is not dropped: the subscript \<open>result['track']['key']\<close> raises
  KeyError and the whole call fails, also when the other results are valid.
\<close>

theorem deduplicate_results_track_without_key_raises:
  "deduplicate_results [JDict [(''track'', JDict [(''title'', JStr ''Song'')])]] = Inl KeyError
   \<and> deduplicate_results
         [sample_payload ''ABC'' ''Song A'' 0, JDict [(''track'', JDict [(''title'', JStr ''Song'')])]]
       = Inl KeyError
   \<and> deduplicate_results [JNone, JDict [], JDict [(''matches'', JList [])], JDict [(''track'', JDict [])]]
       = Inr []"
  by (simp add: deduplicate_results_def new_track_key_def sample_payload_def in_seen_def)

section \<open>Properties of metadata extraction\<close>

lemma stored_text_append:
  "stored_text key dflt stored (xs @ ys) = stored_text key dflt (stored_text key dflt stored xs) ys"
  by (simp add: stored_text_def split: list.splits)

lemma stored_text_Cons:
  "stored_text key dflt stored (m # ms) =
     stored_text key dflt (if has_title key m then text_of dflt m else stored) ms"
  by (auto simp: stored_text_def split: list.splits)

lemma scan_metadata_stored:
  "scan_metadata (a, y) metas = Inr (a', y') \<Longrightarrow>
     a' = stored_text ''Album'' ''Unknown Album'' a metas \<and>
     y' = stored_text ''Released'' ''Unknown Year'' y metas"
proof (induction metas arbitrary: a y)
  case Nil
  then show ?case by (simp add: stored_text_def)
next
  case (Cons m ms)
  from Cons.prems obtain kvs where m: "m = JDict kvs"
    by (cases m) (simp_all)
  let ?a = "if has_title ''Album'' m then text_of ''Unknown Album'' m else a"
  let ?y = "if has_title ''Released'' m then text_of ''Unknown Year'' m else y"
  have "scan_metadata (?a, ?y) ms = Inr (a', y')"
    using Cons.prems by (auto simp: m has_title_def text_of_def split: option.splits)
  from Cons.IH [OF this] show ?case by (simp add: stored_text_Cons)
qed

lemma scan_sections_stored:
  "scan_sections (a, y) secs = Inr (a', y') \<Longrightarrow>
     a' = stored_text ''Album'' ''Unknown Album'' a (concat (map section_entries secs)) \<and>
     y' = stored_text ''Released'' ''Unknown Year'' y (concat (map section_entries secs))"
proof (induction secs arbitrary: a y)
  case Nil
  then show ?case by (simp add: stored_text_def)
next
  case (Cons s ss)
  from Cons.prems obtain metadata metas a1 y1 where
    s: "py_get s ''metadata'' (JList []) = Inr metadata" "py_iter metadata = Inr metas"
       "scan_metadata (a, y) metas = Inr (a1, y1)" "scan_sections (a1, y1) ss = Inr (a', y')"
    by (auto split: sum.splits)
  have e: "section_entries s = metas" using s(1,2) by (simp add: section_entries_def)
  from scan_metadata_stored [OF s(3)] Cons.IH [OF s(4)] show ?case
    by (simp add: e stored_text_append)
qed



lemma is_dict_cases: "is_dict v \<Longrightarrow> \<exists>kvs. v = JDict kvs"
  by (cases v) simp_all

lemma scan_metadata_returns:
  "list_all is_dict metas \<Longrightarrow> \<exists>r. scan_metadata (a, y) metas = Inr r"
proof (induction metas arbitrary: a y)
  case Nil
  then show ?case by simp
next
  case (Cons m ms)
  then have "is_dict m" by simp
  then obtain kvs where m: "m = JDict kvs" using is_dict_cases by blast
  from Cons.prems have "list_all is_dict ms" by simp
  from Cons.IH [OF this] show ?case by (simp add: m)
qed

lemma scan_sections_returns:
  "list_all is_dict secs \<Longrightarrow> list_all section_shaped secs \<Longrightarrow>
     \<exists>r. scan_sections (a, y) secs = Inr r"
proof (induction secs arbitrary: a y)
  case Nil
  then show ?case by simp
next
  case (Cons s ss)
  then have "is_dict s" by simp
  then obtain kvs where s: "s = JDict kvs" using is_dict_cases by blast
  from Cons.prems have sh: "section_shaped s" by simp
  obtain metas where m: "py_get s ''metadata'' (JList []) = Inr (JList metas)"
      "list_all is_dict metas"
    using sh by (cases "map_of kvs ''metadata''")
      (auto simp: s section_shaped_def elim: is_dict_list.elims)
  obtain a1 y1 where r: "scan_metadata (a, y) metas = Inr (a1, y1)"
    using scan_metadata_returns [OF m(2), of a y] by (cases) auto
  from Cons.prems have "list_all is_dict ss" "list_all section_shaped ss" by simp_all
  from Cons.IH [OF this, of a1 y1] show ?case using m(1) r by simp
qed

lemma sections_shaped_cases:
  "sections_shaped v \<Longrightarrow> \<exists>secs. v = JList secs \<and> list_all is_dict secs \<and> list_all section_shaped secs"
  by (cases v) simp_all

lemma scan_sections_value:
  assumes "list_all is_dict secs" "list_all section_shaped secs"
  shows "scan_sections (JStr ''Unknown Album'', JStr ''Unknown Year'') secs =
           Inr (last_matching_text ''Album'' ''Unknown Album'' (concat (map section_entries secs)),
                last_matching_text ''Released'' ''Unknown Year'' (concat (map section_entries secs)))"
proof -
  obtain a y where r: "scan_sections (JStr ''Unknown Album'', JStr ''Unknown Year'') secs = Inr (a, y)"
    using scan_sections_returns [OF assms] by fastforce
  from scan_sections_stored [OF r] r show ?thesis
    by (simp add: stored_text_def last_matching_text_def)
qed

lemma well_shaped_extract:
  assumes "well_shaped entry"
  shows "extract_track_info entry timestamp =
     Inr (JDict
       [(''Track Name'', or_default (payload_field entry [''track'', ''title'']) ''Unknown Track Name''),
        (''Artist'', or_default (payload_field entry [''track'', ''subtitle'']) ''Unknown Artist''),
        (''Album'', last_matching_text ''Album'' ''Unknown Album'' (all_entries entry)),
        (''Genre'', or_default (payload_field entry [''track'', ''genres'', ''primary'']) ''Unknown Genre''),
        (''Year Released'', last_matching_text ''Released'' ''Unknown Year'' (all_entries entry)),
        (''Timestamp'', timestamp)])"
proof -
  from assms obtain ek where ek: "entry = JDict ek"
    using is_dict_cases by (auto simp: well_shaped_def)
  show ?thesis
  proof (cases "map_of ek ''track''")
    case None
    then show ?thesis
      by (simp add: ek extract_track_info_def or_default_def all_entries_def
          last_matching_text_def)
  next
    case (Some t)
    with assms obtain tk where t: "t = JDict tk"
      using is_dict_cases by (auto simp: ek well_shaped_def)
    have g: "\<exists>gk. py_get t ''genres'' (JDict []) = Inr (JDict gk) \<and>
               py_get (JDict gk) ''primary'' (JStr ''Unknown Genre'') =
                 Inr (or_default (payload_field entry [''track'', ''genres'', ''primary'']) ''Unknown Genre'')"
      using assms Some
      by (cases "map_of tk ''genres''")
        (auto simp: ek t well_shaped_def or_default_def dest!: is_dict_cases split: option.splits)
    have s: "\<exists>secs. py_get t ''sections'' (JList []) = Inr (JList secs) \<and>
               list_all is_dict secs \<and> list_all section_shaped secs"
      using assms Some
      by (cases "map_of tk ''sections''")
        (auto simp: ek t well_shaped_def dest!: sections_shaped_cases)
    from g obtain gk where gk: "py_get t ''genres'' (JDict []) = Inr (JDict gk)"
      "py_get (JDict gk) ''primary'' (JStr ''Unknown Genre'') =
         Inr (or_default (payload_field entry [''track'', ''genres'', ''primary'']) ''Unknown Genre'')"
      by blast
    from s obtain secs where secs: "py_get t ''sections'' (JList []) = Inr (JList secs)"
      "list_all is_dict secs" "list_all section_shaped secs"
      by blast
    have e: "all_entries entry = concat (map section_entries secs)"
      using Some secs(1) by (simp add: all_entries_def ek)
    have tt: "py_get entry ''track'' (JDict []) = Inr t"
      using Some by (simp add: ek)
    have f1: "py_get t ''title'' (JStr ''Unknown Track Name'') =
        Inr (or_default (payload_field entry [''track'', ''title'']) ''Unknown Track Name'')"
      using Some by (simp add: ek t or_default_def split: option.splits)
    have f2: "py_get t ''subtitle'' (JStr ''Unknown Artist'') =
        Inr (or_default (payload_field entry [''track'', ''subtitle'']) ''Unknown Artist'')"
      using Some by (simp add: ek t or_default_def split: option.splits)
    have g2: "(case map_of gk ''primary'' of None \<Rightarrow> JStr ''Unknown Genre'' | Some v \<Rightarrow> v) =
        or_default (payload_field entry [''track'', ''genres'', ''primary'']) ''Unknown Genre''"
      using gk(2) by simp
    show ?thesis
      unfolding extract_track_info_def
      by (simp add: tt f1 f2 gk(1) g2 secs(1) scan_sections_value [OF secs(2,3)] e)
  qed
qed

lemma well_shaped_App_extract:
  assumes "well_shaped entry"
  shows "App_extract_track_info entry chunk_timestamp =
     Inr (JDict
       [(''Track Name'', or_default (payload_field entry [''track'', ''title'']) ''Unknown''),
        (''Artist'', or_default (payload_field entry [''track'', ''subtitle'']) ''Unknown''),
        (''Timestamp'', chunk_timestamp)])"
proof -
  from assms obtain ek where ek: "entry = JDict ek"
    using is_dict_cases by (auto simp: well_shaped_def)
  show ?thesis
  proof (cases "map_of ek ''track''")
    case None
    then show ?thesis
      by (simp add: ek App_extract_track_info_def or_default_def)
  next
    case (Some t)
    with assms obtain tk where t: "t = JDict tk"
      using is_dict_cases by (auto simp: ek well_shaped_def)
    show ?thesis
      using Some
      by (simp add: ek t App_extract_track_info_def or_default_def split: option.splits)
  qed
qed

lemma second_section_entries:
  "all_entries second_section_payload =
     [JDict [(''title'', JStr ''Label''), (''text'', JStr ''L'')],
      JDict [(''title'', JStr ''Album''), (''text'', JStr ''A'')],
      JDict [(''title'', JStr ''Released''), (''text'', JStr ''1999'')]]"
  by (simp add: all_entries_def second_section_payload_def section_entries_def)


text \<open>
  The stand-alone script reads the metadata of the first section only: an Album entry
  that stands in the second section is not found.
\<close>

lemma clean_extract_first_section_only:
  "clean_extract_track_info [second_section_payload] =
     Inr [JDict [(''Artist'', JStr ''Unknown Artist''), (''Album'', JStr ''Unknown Album''),
                 (''Track Name'', JStr ''Song X''), (''Genre'', JStr ''Unknown Genre''),
                 (''Year Released'', JStr ''Unknown Year'')]]"
  by (simp add: second_section_payload_def clean_track_record_def first_section_metadata_def)




text \<open>
  Claim C5, as stated, fails. A payload whose \<open>genres\<close> entry is a string makes the
  pipeline's extractor raise AttributeError, and the user interface's extractor returns
  three fields, with the default Unknown, for the empty payload.
\<close>

theorem extract_track_info_malformed_counterexample:
  "extract_track_info genres_string_payload (JInt 0) = Inl AttributeError
   \<and> App_extract_track_info (JDict []) (JStr ''0:00'') =
       Inr (JDict [(''Track Name'', JStr ''Unknown''), (''Artist'', JStr ''Unknown''),
                   (''Timestamp'', JStr ''0:00'')])"
  by (simp add: extract_track_info_def genres_string_payload_def App_extract_track_info_def)

text \<open>
  Claim C5, amended. For every payload of the expected shape (where present, \<open>track\<close> and
  \<open>genres\<close> are dictionaries, \<open>sections\<close> and each \<open>metadata\<close> are lists of
  dictionaries) the pipeline's extractor does not raise and returns the six fields Track
  Name, Artist, Album, Genre, Year Released and Timestamp: each field the payload has is
  passed on, each absent one is its default, and the timestamp is the one given. The user
  interface's extractor returns Track Name, Artist and Timestamp on the same payloads,
  with the default Unknown. For the empty payload the pipeline's extractor returns
  all five defaults and the timestamp.
\<close>

theorem extract_track_info_well_shaped_defaults:
  "(well_shaped entry \<longrightarrow>
      extract_track_info entry timestamp =
        Inr (JDict
          [(''Track Name'',
              or_default (payload_field entry [''track'', ''title'']) ''Unknown Track Name''),
           (''Artist'',
              or_default (payload_field entry [''track'', ''subtitle'']) ''Unknown Artist''),
           (''Album'', last_matching_text ''Album'' ''Unknown Album'' (all_entries entry)),
           (''Genre'',
              or_default (payload_field entry [''track'', ''genres'', ''primary''])
                ''Unknown Genre''),
           (''Year Released'',
              last_matching_text ''Released'' ''Unknown Year'' (all_entries entry)),
           (''Timestamp'', timestamp)]) \<and>
      App_extract_track_info entry timestamp =
        Inr (JDict
          [(''Track Name'', or_default (payload_field entry [''track'', ''title'']) ''Unknown''),
           (''Artist'', or_default (payload_field entry [''track'', ''subtitle'']) ''Unknown''),
           (''Timestamp'', timestamp)]))
   \<and> extract_track_info (JDict []) timestamp =
       Inr (JDict [(''Track Name'', JStr ''Unknown Track Name''),
                   (''Artist'', JStr ''Unknown Artist''), (''Album'', JStr ''Unknown Album''),
                   (''Genre'', JStr ''Unknown Genre''),
                   (''Year Released'', JStr ''Unknown Year''), (''Timestamp'', timestamp)])"
proof (intro conjI impI)
  assume "well_shaped entry"
  then show "extract_track_info entry timestamp =
        Inr (JDict
          [(''Track Name'',
              or_default (payload_field entry [''track'', ''title'']) ''Unknown Track Name''),
           (''Artist'',
              or_default (payload_field entry [''track'', ''subtitle'']) ''Unknown Artist''),
           (''Album'', last_matching_text ''Album'' ''Unknown Album'' (all_entries entry)),
           (''Genre'',
              or_default (payload_field entry [''track'', ''genres'', ''primary''])
                ''Unknown Genre''),
           (''Year Released'',
              last_matching_text ''Released'' ''Unknown Year'' (all_entries entry)),
           (''Timestamp'', timestamp)])"
    by (rule well_shaped_extract)
next
  assume "well_shaped entry"
  then show "App_extract_track_info entry timestamp =
        Inr (JDict
          [(''Track Name'', or_default (payload_field entry [''track'', ''title'']) ''Unknown''),
           (''Artist'', or_default (payload_field entry [''track'', ''subtitle'']) ''Unknown''),
           (''Timestamp'', timestamp)])"
    by (rule well_shaped_App_extract)
next
  show "extract_track_info (JDict []) timestamp =
       Inr (JDict [(''Track Name'', JStr ''Unknown Track Name''),
                   (''Artist'', JStr ''Unknown Artist''), (''Album'', JStr ''Unknown Album''),
                   (''Genre'', JStr ''Unknown Genre''),
                   (''Year Released'', JStr ''Unknown Year''), (''Timestamp'', timestamp)])"
    by (simp add: extract_track_info_def)
qed

lemma second_section_well_shaped: "well_shaped second_section_payload"
  by (simp add: well_shaped_def second_section_payload_def section_shaped_def)

theorem extract_track_info_well_shaped_defaults_witness:
  "well_shaped second_section_payload
   \<and> extract_track_info second_section_payload (JStr ''0:40'') =
       Inr (JDict [(''Track Name'', JStr ''Song X''), (''Artist'', JStr ''Unknown Artist''),
                   (''Album'', JStr ''A''), (''Genre'', JStr ''Unknown Genre''),
                   (''Year Released'', JStr ''1999''), (''Timestamp'', JStr ''0:40'')])
   \<and> App_extract_track_info second_section_payload (JStr ''0:40'') =
       Inr (JDict [(''Track Name'', JStr ''Song X''), (''Artist'', JStr ''Unknown''),
                   (''Timestamp'', JStr ''0:40'')])"
proof -
  have p: "payload_field second_section_payload [''track'', ''title''] = Some (JStr ''Song X'')"
    "payload_field second_section_payload [''track'', ''subtitle''] = None"
    "payload_field second_section_payload [''track'', ''genres'', ''primary''] = None"
    by (simp_all add: second_section_payload_def)
  have l: "last_matching_text ''Album'' ''Unknown Album'' (all_entries second_section_payload)
             = JStr ''A''"
    "last_matching_text ''Released'' ''Unknown Year'' (all_entries second_section_payload)
             = JStr ''1999''"
    by (simp_all add: second_section_entries last_matching_text_def has_title_def text_of_def)
  from extract_track_info_well_shaped_defaults [of second_section_payload "JStr ''0:40''"]
    second_section_well_shaped
  show ?thesis by (simp add: p l or_default_def)
qed

section \<open>Properties of the pipelines\<close>














text \<open>
  Claim C7. \<open>analyze_chunk_with_shazam\<close> returns the payload when the service call
  returns one, and returns \<open>None\<close> when the call raises any \<open>Exception\<close>: for every
  reply of the service that is not an interpreter signal outside the \<open>Exception\<close>
  classes, the function returns a value and propagates nothing.
\<close>

theorem analyze_chunk_with_shazam_always_returns:
  "analyze_chunk_with_shazam (Returns payload) = Inr payload
   \<and> (is_Exception e \<longrightarrow> analyze_chunk_with_shazam (Raises e) = Inr JNone)
   \<and> ((\<forall>e'. reply = Raises e' \<longrightarrow> is_Exception e') \<longrightarrow>
        (\<exists>v. analyze_chunk_with_shazam reply = Inr v))"
  by (cases reply) (simp_all add: analyze_chunk_with_shazam_def)

theorem analyze_chunk_with_shazam_always_returns_witness:
  "is_Exception (OtherException ''timed out'')
   \<and> analyze_chunk_with_shazam (Raises (OtherException ''timed out'')) = Inr JNone
   \<and> analyze_chunk_with_shazam (Returns (sample_payload ''ABC'' ''Song A'' 0))
       = Inr (sample_payload ''ABC'' ''Song A'' 0)"
  using analyze_chunk_with_shazam_always_returns
    [of "sample_payload ''ABC'' ''Song A'' 0" "OtherException ''timed out''"]
  by simp











lemma sample_truthy: "truthy (sample_payload k t s)"
  by (simp add: sample_payload_def)

lemma sample_App_extract:
  "App_extract_track_info (sample_payload k t s) ts =
     Inr (JDict [(''Track Name'', JStr t), (''Artist'', JStr ''Unknown''), (''Timestamp'', ts)])"
  by (simp add: sample_payload_def App_extract_track_info_def)

lemma sample_extract:
  "extract_track_info (sample_payload k t s) ts =
     Inr (JDict [(''Track Name'', JStr t), (''Artist'', JStr ''Unknown Artist''),
                 (''Album'', JStr ''Unknown Album''), (''Genre'', JStr ''Unknown Genre''),
                 (''Year Released'', JStr ''Unknown Year''), (''Timestamp'', ts)])"
  by (simp add: sample_payload_def extract_track_info_def)

lemma sample_timestamp: "py_getitem (sample_payload k t s) ''timestamp'' = Inr (JInt s)"
  by (simp add: sample_payload_def)

lemmas sample_payloads =
  payload_ABC_0_def payload_XYZ_1_def payload_ABC_2_def payload_ABC_1_def payload_XYZ_2_def


text \<open>
  Claim C1. The command-line pipeline pairs the deduplicated results with the results
  before deduplication, position by position, and reads the \<open>timestamp\<close> entry of the
  payload found there: when the chunks are recognised as ABC, ABC and XYZ, the entry for
  XYZ carries the timestamp of the second chunk, not that of the third, where XYZ was
  first recognised. The user interface's pipeline does not deduplicate: when the chunks
  are recognised as ABC, XYZ and ABC its track list has three entries.
\<close>

theorem pipeline_timestamps_and_duplicates:
  "main_pipeline [Returns payload_ABC_0, Returns payload_ABC_1, Returns payload_XYZ_2]
     = Inr [JDict [(''Track Name'', JStr ''Song A''), (''Artist'', JStr ''Unknown Artist''),
                   (''Album'', JStr ''Unknown Album''), (''Genre'', JStr ''Unknown Genre''),
                   (''Year Released'', JStr ''Unknown Year''), (''Timestamp'', JInt 100)],
            JDict [(''Track Name'', JStr ''Song X''), (''Artist'', JStr ''Unknown Artist''),
                   (''Album'', JStr ''Unknown Album''), (''Genre'', JStr ''Unknown Genre''),
                   (''Year Released'', JStr ''Unknown Year''), (''Timestamp'', JInt 200)]]
   \<and> py_getitem payload_XYZ_2 ''timestamp'' = Inr (JInt 300)
   \<and> process_pipeline
         [(chunk0, Returns payload_ABC_0), (chunk1, Returns payload_XYZ_1),
          (chunk2, Returns payload_ABC_2)]
       = Inr [JDict [(''Track Name'', JStr ''Song A''), (''Artist'', JStr ''Unknown''),
                     (''Timestamp'', JStr ''0:00'')],
              JDict [(''Track Name'', JStr ''Song X''), (''Artist'', JStr ''Unknown''),
                     (''Timestamp'', JStr ''0:40'')],
              JDict [(''Track Name'', JStr ''Song A''), (''Artist'', JStr ''Unknown''),
                     (''Timestamp'', JStr ''1:20'')]]"
  by (simp add: main_pipeline_def process_pipeline_def analyze_chunk_with_shazam_def
      sample_payloads sample_truthy sample_App_extract sample_extract sample_timestamp
      deduplicate_results_def sample_new_track_key chunk0_def chunk1_def chunk2_def)

section \<open>Properties of the boundary functions\<close>

lemma first_audio_file_None:
  "\<not> list_ex is_audio_file files \<Longrightarrow> first_audio_file temp_dir files = None"
  by (induction files) auto

lemma download_and_split_None:
  "download_youtube_audio os youtube_url temp_dir = Inr None \<Longrightarrow>
     download_and_split os lib youtube_url temp_dir = split_audio_into_chunks lib None 40"
  by (simp add: download_and_split_def)

lemma download_none:
  assumes "run_process os (download_command youtube_url temp_dir) = Inr ()"
    and "listdir os temp_dir = Inr files" and "\<not> list_ex is_audio_file files"
  shows "download_youtube_audio os youtube_url temp_dir = Inr None"
  using assms
  by (simp add: download_youtube_audio_def download_attempt_def first_audio_file_None)

lemma download_failed:
  assumes "run_process os (download_command youtube_url temp_dir) = Inl (CalledProcessError stderr)"
  shows "download_youtube_audio os youtube_url temp_dir =
           Inl (Exception (''Error downloading audio: '' @ stderr))"
  using assms by (simp add: download_youtube_audio_def download_attempt_def)

lemma download_raises_only:
  assumes "listdir os temp_dir = Inr files"
    and "download_youtube_audio os youtube_url temp_dir = Inl e"
  shows "\<exists>e'. run_process os (download_command youtube_url temp_dir) = Inl e'"
  using assms
  by (auto simp: download_youtube_audio_def download_attempt_def split: sum.splits error.splits)

lemma format_time_in_range:
  "in_timedelta_range (ms div 1000) \<Longrightarrow> \<exists>t. format_time ms = Inr t"
  by (simp add: format_time_def timedelta_str_def in_timedelta_range_def Let_def)

lemma split_loop_returns:
  assumes "\<And>c n. export_mp3 lib c n = Inr ()"
    and "\<And>k. k < length chunks \<Longrightarrow> in_timedelta_range (int (i + k) * d)"
  shows "\<exists>paths. split_loop lib (Some path) d acc i chunks = Inr paths \<and>
           length paths = length acc + length chunks"
  using assms(2)
proof (induction chunks arbitrary: acc i)
  case Nil
  then show ?case by simp
next
  case (Cons c cs)
  have "in_timedelta_range (int i * d)" using Cons.prems [of 0] by simp
  then obtain t where t: "format_time (int i * d * 1000) = Inr t"
    using format_time_in_range [of "int i * d * 1000"] by auto
  have "\<And>k. k < length cs \<Longrightarrow> in_timedelta_range (int (Suc i + k) * d)"
    using Cons.prems [of "Suc k" for k] by simp
  from Cons.IH [OF this, of "acc @ [splitext_root lib path @ ''_chunk_'' @ t @ ''.mp3'']"]
  show ?case by (simp add: t assms(1))
qed

lemma App_split_loop_returns:
  assumes "\<And>c n. export_mp3 lib c n = Inr ()"
  shows "\<exists>cs. App_split_loop lib (Some path) d acc i chunks = Inr cs \<and>
           map time_stamp cs =
             map time_stamp acc @ map (\<lambda>k. App_start_time k d) [i ..< i + length chunks]"
proof (induction chunks arbitrary: acc i)
  case Nil
  then show ?case by simp
next
  case (Cons c cs)
  let ?c = "\<lparr>file_name = splitext_root lib path @ ''_chunk_'' @ App_start_time i d @ ''.mp3'',
             time_stamp = App_start_time i d\<rparr>"
  from Cons.IH [of "acc @ [?c]" "Suc i"]
  obtain r where r: "App_split_loop lib (Some path) d (acc @ [?c]) (Suc i) cs = Inr r"
    "map time_stamp r = map time_stamp (acc @ [?c])
       @ map (\<lambda>k. App_start_time k d) [Suc i ..< Suc i + length cs]"
    by blast
  have "i < i + length (c # cs)" by simp
  from upt_conv_Cons [OF this]
  have u: "[i ..< i + length (c # cs)] = i # [Suc i ..< Suc i + length cs]"
    by (simp del: upt_Suc)
  have "App_split_loop lib (Some path) d acc i (c # cs) = Inr r"
    using r(1) by (simp add: assms)
  moreover have "map time_stamp r =
      map time_stamp acc @ map (\<lambda>k. App_start_time k d) [i ..< i + length (c # cs)]"
    unfolding u r(2) by simp
  ultimately show ?case by blast
qed

text \<open>
  Claim C8. When the transport raises a connection error (or any other
  \<open>RequestException\<close>), \<open>slskd_search\<close> returns a list with exactly one candidate,
  whose user name is Error and whose path is the message of the error; nothing is raised.
\<close>

theorem slskd_search_transport_error:
  assumes "post (search_payload track_name) = Post_raises e" and "is_RequestException e"
  shows "slskd_search post track_name =
           Inr (JList [JDict [(''username'', JStr ''Error''), (''path'', JStr (message_of e)),
                              (''filesize'', JStr ''N/A'')]])"
  using assms by (simp add: slskd_search_def search_request_def error_candidate_def)

theorem slskd_search_transport_error_witness:
  "is_RequestException (ConnectionError ''Connection refused'')
   \<and> slskd_search (\<lambda>payload. Post_raises (ConnectionError ''Connection refused'')) ''Song A'' =
       Inr (JList [JDict [(''username'', JStr ''Error''), (''path'', JStr ''Connection refused''),
                          (''filesize'', JStr ''N/A'')]])"
  using slskd_search_transport_error
    [of "\<lambda>payload. Post_raises (ConnectionError ''Connection refused'')" "''Song A''"
        "ConnectionError ''Connection refused''"]
  by simp

text \<open>
  Claim C10. When the download process exits successfully and the listing of the
  temporary directory holds no name that starts with \<open>audio_file\<close> and ends with
  \<open>.mp3\<close>, \<open>download_youtube_audio\<close> returns \<open>None\<close>, and the caller goes on to
  split with \<open>None\<close> as the audio file. When the process fails, the function raises an
  \<open>Exception\<close> whose message carries the error output; and, the directory being
  listable, it raises only when the process call itself raised.
\<close>

theorem download_youtube_audio_returns_None:
  "(run_process os (download_command youtube_url temp_dir) = Inr () \<longrightarrow>
      listdir os temp_dir = Inr files \<longrightarrow> \<not> list_ex is_audio_file files \<longrightarrow>
      download_youtube_audio os youtube_url temp_dir = Inr None \<and>
      download_and_split os lib youtube_url temp_dir = split_audio_into_chunks lib None 40)
   \<and> (run_process os (download_command youtube_url temp_dir) = Inl (CalledProcessError stderr) \<longrightarrow>
      download_youtube_audio os youtube_url temp_dir =
        Inl (Exception (''Error downloading audio: '' @ stderr)))
   \<and> (listdir os temp_dir = Inr files \<longrightarrow>
      download_youtube_audio os youtube_url temp_dir = Inl e \<longrightarrow>
      (\<exists>e'. run_process os (download_command youtube_url temp_dir) = Inl e'))"
  using download_none [of os youtube_url temp_dir files]
    download_and_split_None [of os youtube_url temp_dir lib]
    download_failed [of os youtube_url temp_dir stderr]
    download_raises_only [of os temp_dir files youtube_url e]
  by blast

theorem download_youtube_audio_returns_None_witness:
  "download_youtube_audio
     \<lparr>run_process = (\<lambda>command. Inr ()), listdir = (\<lambda>dir. Inr [''notes.txt'', ''audio_file.webm''])\<rparr>
     ''https://youtu.be/x'' ''/tmp/t'' = Inr None
   \<and> download_youtube_audio
     \<lparr>run_process = (\<lambda>command. Inl (CalledProcessError ''ERROR: Video unavailable'')),
      listdir = (\<lambda>dir. Inr [])\<rparr>
     ''https://youtu.be/x'' ''/tmp/t'' =
       Inl (Exception ''Error downloading audio: ERROR: Video unavailable'')
   \<and> download_youtube_audio
     \<lparr>run_process = (\<lambda>command. Inr ()), listdir = (\<lambda>dir. Inr [''audio_file.mp3''])\<rparr>
     ''https://youtu.be/x'' ''/tmp/t'' = Inr (Some ''/tmp/t/audio_file.mp3'')"
proof -
  have n: "\<not> list_ex is_audio_file [''notes.txt'', ''audio_file.webm'']"
    by (simp add: is_audio_file_def startswith_def endswith_def)
  from download_youtube_audio_returns_None
    [of "\<lparr>run_process = (\<lambda>command. Inr ()),
          listdir = (\<lambda>dir. Inr [''notes.txt'', ''audio_file.webm''])\<rparr>"
        "''https://youtu.be/x''" "''/tmp/t''" "[''notes.txt'', ''audio_file.webm'']"
        "library_with []" "''ERROR''" "Exception ''ERROR''", THEN conjunct1] n
  have 1: "download_youtube_audio
     \<lparr>run_process = (\<lambda>command. Inr ()), listdir = (\<lambda>dir. Inr [''notes.txt'', ''audio_file.webm''])\<rparr>
     ''https://youtu.be/x'' ''/tmp/t'' = Inr None"
    by simp
  have 2: "download_youtube_audio
     \<lparr>run_process = (\<lambda>command. Inl (CalledProcessError ''ERROR: Video unavailable'')),
      listdir = (\<lambda>dir. Inr [])\<rparr>
     ''https://youtu.be/x'' ''/tmp/t'' =
       Inl (Exception ''Error downloading audio: ERROR: Video unavailable'')"
    by (simp add: download_youtube_audio_def download_attempt_def)
  have 3: "download_youtube_audio
     \<lparr>run_process = (\<lambda>command. Inr ()), listdir = (\<lambda>dir. Inr [''audio_file.mp3''])\<rparr>
     ''https://youtu.be/x'' ''/tmp/t'' = Inr (Some ''/tmp/t/audio_file.mp3'')"
    by (simp add: download_youtube_audio_def download_attempt_def is_audio_file_def
        startswith_def endswith_def path_join_def)
  from 1 2 3 show ?thesis by blast
qed

text \<open>
  Claim C9, as stated, fails. With a chunk duration of \<open>-40\<close> both functions return the
  empty list and raise nothing; with a chunk duration of \<open>0\<close> the error is the
  library's division by zero, raised inside \<open>make_chunks\<close>.
\<close>

theorem split_audio_into_chunks_invalid_input_counterexample:
  "split_audio_into_chunks (library_with [1, 2, 3]) (Some ''/tmp/t/audio_file.mp3'') (- 40)
     = Inr []
   \<and> App_split_audio_into_chunks (library_with [1, 2, 3]) (Some ''/tmp/t/audio_file.mp3'') (- 40)
     = Inr []
   \<and> split_audio_into_chunks (library_with [1, 2, 3]) (Some ''/tmp/t/audio_file.mp3'') 0
     = Inl ZeroDivisionError"
  by (simp add: split_audio_into_chunks_def App_split_audio_into_chunks_def library_with_def
      chunks_by_length_def)

text \<open>
  Claim C9, amended. The two functions check neither the chunk duration nor the audio: an
  error of \<open>from_file\<close> or of \<open>make_chunks\<close> is passed on as it is, and when the
  library's calls succeed (and, in testyboy.py, the start offsets can be rendered as a
  \<open>timedelta\<close>) the functions return one path per chunk the library made, for every
  chunk duration, positive or not, and every audio; the user interface's chunks carry
  the start offsets in minutes and seconds.
\<close>

theorem split_audio_into_chunks_no_validation:
  "(from_file lib audio_file = Inl e \<longrightarrow>
      split_audio_into_chunks lib audio_file d = Inl e \<and>
      App_split_audio_into_chunks lib audio_file d = Inl e)
   \<and> (from_file lib audio_file = Inr audio \<longrightarrow> make_chunks lib audio (d * 1000) = Inl e \<longrightarrow>
      split_audio_into_chunks lib audio_file d = Inl e \<and>
      App_split_audio_into_chunks lib audio_file d = Inl e)
   \<and> (from_file lib (Some path) = Inr audio \<longrightarrow> make_chunks lib audio (d * 1000) = Inr chunks \<longrightarrow>
      (\<forall>c n. export_mp3 lib c n = Inr ()) \<longrightarrow>
      (\<exists>cs. App_split_audio_into_chunks lib (Some path) d = Inr cs \<and>
            map time_stamp cs = map (\<lambda>k. App_start_time k d) [0 ..< length chunks]) \<and>
      ((\<forall>k < length chunks. in_timedelta_range (int k * d)) \<longrightarrow>
         (\<exists>paths. split_audio_into_chunks lib (Some path) d = Inr paths \<and>
                  length paths = length chunks)))"
proof (intro conjI impI)
  assume "from_file lib audio_file = Inl e"
  then show "split_audio_into_chunks lib audio_file d = Inl e"
    and "App_split_audio_into_chunks lib audio_file d = Inl e"
    by (simp_all add: split_audio_into_chunks_def App_split_audio_into_chunks_def)
next
  assume "from_file lib audio_file = Inr audio" "make_chunks lib audio (d * 1000) = Inl e"
  then show "split_audio_into_chunks lib audio_file d = Inl e"
    and "App_split_audio_into_chunks lib audio_file d = Inl e"
    by (simp_all add: split_audio_into_chunks_def App_split_audio_into_chunks_def)
next
  assume a: "from_file lib (Some path) = Inr audio" "make_chunks lib audio (d * 1000) = Inr chunks"
    "\<forall>c n. export_mp3 lib c n = Inr ()"
  from App_split_loop_returns [of lib path d "[]" 0 chunks] a(3)
  show "\<exists>cs. App_split_audio_into_chunks lib (Some path) d = Inr cs \<and>
            map time_stamp cs = map (\<lambda>k. App_start_time k d) [0 ..< length chunks]"
    by (simp add: App_split_audio_into_chunks_def a(1,2))
next
  assume a: "from_file lib (Some path) = Inr audio" "make_chunks lib audio (d * 1000) = Inr chunks"
    "\<forall>c n. export_mp3 lib c n = Inr ()"
    "\<forall>k < length chunks. in_timedelta_range (int k * d)"
  from split_loop_returns [of lib chunks 0 d path "[]"] a(3,4)
  show "\<exists>paths. split_audio_into_chunks lib (Some path) d = Inr paths \<and>
                  length paths = length chunks"
    by (simp add: split_audio_into_chunks_def a(1,2))
qed

lemma ninety_seconds_chunks:
  "chunks_by_length (replicate 90000 0) 40000 =
     Inr [replicate 40000 0, replicate 40000 0, replicate 10000 0]"
  by (simp add: chunks_by_length_def upt_rec)

lemma ninety_seconds_App_split:
  "App_split_audio_into_chunks (library_with (replicate 90000 0))
     (Some ''/tmp/t/audio_file.mp3'') 40 = Inr [chunk0, chunk1, chunk2]"
  by (simp add: App_split_audio_into_chunks_def library_with_def ninety_seconds_chunks
      chunk0_def chunk1_def chunk2_def App_start_time_def str_int_def pad2_def str_nat.simps
      digit_def)

lemma ninety_seconds_split:
  "split_audio_into_chunks (library_with (replicate 90000 0))
     (Some ''/tmp/t/audio_file.mp3'') 40 =
     Inr [''/tmp/t/audio_file_chunk_0_00_00.mp3'', ''/tmp/t/audio_file_chunk_0_00_40.mp3'',
          ''/tmp/t/audio_file_chunk_0_01_20.mp3'']"
  by (simp add: split_audio_into_chunks_def library_with_def ninety_seconds_chunks
      format_time_def timedelta_str_def str_int_def pad2_def str_nat.simps digit_def Let_def)

text \<open>
  An audio of ninety seconds in chunks of forty: three chunks, at 0:00, 0:40 and 1:20.
\<close>

theorem split_audio_into_chunks_no_validation_witness:
  "from_file (library_with (replicate 90000 0)) (Some ''/tmp/t/audio_file.mp3'')
     = Inr (replicate 90000 0)
   \<and> make_chunks (library_with (replicate 90000 0)) (replicate 90000 0) (40 * 1000)
     = Inr [replicate 40000 0, replicate 40000 0, replicate 10000 0]
   \<and> App_split_audio_into_chunks (library_with (replicate 90000 0))
        (Some ''/tmp/t/audio_file.mp3'') 40 = Inr [chunk0, chunk1, chunk2]
   \<and> split_audio_into_chunks (library_with (replicate 90000 0))
        (Some ''/tmp/t/audio_file.mp3'') 40 =
       Inr [''/tmp/t/audio_file_chunk_0_00_00.mp3'', ''/tmp/t/audio_file_chunk_0_00_40.mp3'',
            ''/tmp/t/audio_file_chunk_0_01_20.mp3'']"
proof -
  let ?lib = "library_with (replicate 90000 0)"
  let ?chunks = "[replicate 40000 0, replicate 40000 0, replicate 10000 (0::nat)]"
  have h1: "from_file ?lib (Some ''/tmp/t/audio_file.mp3'') = Inr (replicate 90000 0)"
    by (simp add: library_with_def)
  have h2: "make_chunks ?lib (replicate 90000 0) (40 * 1000) = Inr ?chunks"
    by (simp add: library_with_def ninety_seconds_chunks)
  have h3: "\<forall>c n. export_mp3 ?lib c n = Inr ()"
    by (simp add: library_with_def)
  have h4: "\<forall>k < length ?chunks. in_timedelta_range (int k * 40)"
    by (simp add: in_timedelta_range_def)
  from split_audio_into_chunks_no_validation
    [of ?lib "Some ''/tmp/t/audio_file.mp3''" TypeError 40 "replicate 90000 0"
        "''/tmp/t/audio_file.mp3''" ?chunks]
    h1 h2 h3 h4
  have "\<exists>paths. split_audio_into_chunks ?lib (Some ''/tmp/t/audio_file.mp3'') 40 = Inr paths \<and>
          length paths = length ?chunks"
    by blast
  then show ?thesis
    using h1 h2 ninety_seconds_App_split ninety_seconds_split by blast
qed

end
